theory Spec2Isabelle
  imports Complex_Main
begin

section \<open>Object tracking and following (src/main.cpp)\<close>

text \<open>
  A shallow embedding of \<^verbatim>\<open>src/main.cpp\<close>. The program keeps all its data in global
  variables; the model collects them in one record that every function takes and returns.

  \<^item> A C++ \<^verbatim>\<open>int\<close> is an \<^typ>\<open>int\<close>. Signed overflow is undefined in C++, so the model
    coincides with the program on every run in which the 32-bit range is respected; all
    concrete inputs used below are small.
  \<^item> A C++ \<^verbatim>\<open>double\<close> is a \<^typ>\<open>real\<close>: rounding is not modelled. The integer operands
    that are compared with or divided into doubles are far below \<open>2^53\<close>, so they convert
    exactly.
  \<^item> Integer division \<^verbatim>\<open>/\<close> truncates towards zero (\<open>cdiv\<close>), unlike \<open>div\<close>.
  \<^item> The drone object \<^verbatim>\<open>ardrone\<close> belongs to an external library; the model records the
    commands sent to it, oldest first.
  \<^item> The two XML configuration files are finite maps from key names to integers; a
    file that does not exist is the empty map.
  \<^item> Windows, text and the overlay images are presentation and are left out. So are
    the trackbars: in the model the thresholds change only when a configuration file
    is loaded.
\<close>

subsection \<open>Constants and C arithmetic\<close>

definition WIDTH :: int where
  "WIDTH = 640"

definition HEIGHT :: int where
  "HEIGHT = 360"

definition cdiv :: "int \<Rightarrow> int \<Rightarrow> int" where
  \<comment> \<open>C++ integer division: the quotient is truncated towards zero.\<close>
  "cdiv a b = sgn a * sgn b * (\<bar>a\<bar> div \<bar>b\<bar>)"

definition cnot :: "int \<Rightarrow> int" where
  \<comment> \<open>\<^verbatim>\<open>!x\<close> stored back into an \<^verbatim>\<open>int\<close>.\<close>
  "cnot x = (if x = 0 then 1 else 0)"

definition double_to_int :: "real \<Rightarrow> int" where
  \<comment> \<open>Conversion of a finite double to \<^verbatim>\<open>int\<close>: the fraction is discarded.\<close>
  "double_to_int r = (if 0 \<le> r then \<lfloor>r\<rfloor> else \<lceil>r\<rceil>)"

subsection \<open>The global state\<close>

datatype drone_command = Takeoff | Landing | SetCalibration | SetFlatTrim | Emergency

type_synonym config_file = "string \<rightharpoonup> int"

record state =
  follow :: int
  auto_land :: int
  camera :: int
  detected :: int
  pos_x :: int
  pos_y :: int
  area :: real
  deadzone_x :: int
  deadzone_y :: int
  min_area :: int
  max_area :: int
  hue_low :: int
  hue_high :: int
  sat_low :: int
  sat_high :: int
  val_low :: int
  val_high :: int
  vx :: real
  vy :: real
  vz :: real
  vr :: real
  ardrone :: "drone_command list"
  front_camera_config :: config_file
  bottom_camera_config :: config_file

definition initial_state :: "config_file \<Rightarrow> config_file \<Rightarrow> state" where
  \<comment> \<open>The initialisers of lines 16-40; globals without one start at zero. The two
      arguments are the configuration files found on disk.\<close>
  "initial_state front bottom =
     \<lparr> follow = 0, auto_land = 0, camera = 0, detected = 0,
       pos_x = 0, pos_y = 0, area = 0,
       deadzone_x = 320, deadzone_y = 180, min_area = 0, max_area = 500,
       hue_low = 0, hue_high = 179, sat_low = 0, sat_high = 255,
       val_low = 0, val_high = 255,
       vx = 0, vy = 0, vz = 0, vr = 0,
       ardrone = [],
       front_camera_config = front, bottom_camera_config = bottom \<rparr>"

subsection \<open>followObject (lines 314-365)\<close>

definition y_outside_deadzone :: "state \<Rightarrow> bool" where
  \<comment> \<open>The condition of lines 322 and 341.\<close>
  "y_outside_deadzone st \<longleftrightarrow>
     pos_y st < cdiv (HEIGHT - deadzone_y st) 2 \<or> pos_y st > cdiv (HEIGHT + deadzone_y st) 2"

definition x_outside_deadzone :: "state \<Rightarrow> bool" where
  \<comment> \<open>The condition of lines 326 and 346.\<close>
  "x_outside_deadzone st \<longleftrightarrow>
     pos_x st < cdiv (WIDTH - deadzone_x st) 2 \<or> pos_x st > cdiv (WIDTH + deadzone_x st) 2"

definition follow_front :: "state \<Rightarrow> state" where
  \<comment> \<open>\<^verbatim>\<open>case 0\<close>: four \<^verbatim>\<open>if\<close> statements in sequence.\<close>
  "follow_front st =
     (let st1 = (if y_outside_deadzone st
                 then st\<lparr>vz := real_of_int (pos_y st - cdiv HEIGHT 2) / (- 250)\<rparr> else st);
          st2 = (if x_outside_deadzone st1
                 then st1\<lparr>vr := real_of_int (pos_x st1 - cdiv WIDTH 2) / (- 200)\<rparr> else st1);
          st3 = (if area st2 < real_of_int (max_area st2 * 100000)
                 then st2\<lparr>vx := 3 / 10\<rparr> else st2);
          st4 = (if area st3 > real_of_int ((max_area st3 + 10) * 100000)
                 then st3\<lparr>vx := - (3 / 10)\<rparr> else st3)
      in st4)"

definition follow_bottom :: "state \<Rightarrow> state" where
  \<comment> \<open>\<^verbatim>\<open>case 1\<close>.\<close>
  "follow_bottom st =
     (let st1 = (if y_outside_deadzone st
                 then st\<lparr>vx := real_of_int (pos_y st - cdiv HEIGHT 2) / (- 400)\<rparr> else st);
          st2 = (if x_outside_deadzone st1
                 then st1\<lparr>vy := real_of_int (pos_x st1 - cdiv WIDTH 2) / (- 800)\<rparr> else st1);
          st3 = (if auto_land st2 \<noteq> 0
                 then (let st2' = st2\<lparr>vz := - (1 / 10)\<rparr>
                       in if area st2' > real_of_int (max_area st2' * 100000)
                          then st2'\<lparr>ardrone := ardrone st2' @ [Landing]\<rparr> else st2')
                 else st2)
      in st3)"

definition followObject :: "state \<Rightarrow> state" where
  "followObject st =
     (if camera st = 0 then follow_front st
      else if camera st = 1 then follow_bottom st
      else st)"

subsection \<open>The configuration files (lines 138-190)\<close>

definition config_values :: "state \<Rightarrow> config_file" where
  \<comment> \<open>The ten nodes written by lines 178-187. Opening a file for writing discards
      what it held, so these are its whole contents afterwards.\<close>
  "config_values st =
     [''HueLOW'' \<mapsto> hue_low st, ''HueHIGH'' \<mapsto> hue_high st,
      ''SaturationLOW'' \<mapsto> sat_low st, ''SaturationHIGH'' \<mapsto> sat_high st,
      ''ValueLOW'' \<mapsto> val_low st, ''ValueHIGH'' \<mapsto> val_high st,
      ''AreaMIN'' \<mapsto> min_area st, ''AreaMAX'' \<mapsto> max_area st,
      ''DeadzoneX'' \<mapsto> deadzone_x st, ''DeadzoneY'' \<mapsto> deadzone_y st]"

definition saveConfigValues :: "state \<Rightarrow> state" where
  \<comment> \<open>When \<open>camera\<close> is neither 0 nor 1 no file is opened and the writes do nothing.\<close>
  "saveConfigValues st =
     (if camera st = 0 then st\<lparr>front_camera_config := config_values st\<rparr>
      else if camera st = 1 then st\<lparr>bottom_camera_config := config_values st\<rparr>
      else st)"

definition read_node :: "config_file \<Rightarrow> string \<Rightarrow> int" where
  \<comment> \<open>\<^verbatim>\<open>fs[key] >> x\<close>: a node that is missing reads as the default value 0.\<close>
  "read_node fs key = (case fs key of Some v \<Rightarrow> v | None \<Rightarrow> 0)"

definition opened_config :: "state \<Rightarrow> config_file" where
  \<comment> \<open>The file opened by lines 142-149; with no file opened every node is missing.\<close>
  "opened_config st =
     (if camera st = 0 then front_camera_config st
      else if camera st = 1 then bottom_camera_config st
      else Map.empty)"

definition loadConfigValues :: "state \<Rightarrow> state" where
  "loadConfigValues st =
     (let fs = opened_config st
      in st\<lparr> hue_low := read_node fs ''HueLOW'', hue_high := read_node fs ''HueHIGH'',
             sat_low := read_node fs ''SaturationLOW'', sat_high := read_node fs ''SaturationHIGH'',
             val_low := read_node fs ''ValueLOW'', val_high := read_node fs ''ValueHIGH'',
             min_area := read_node fs ''AreaMIN'', max_area := read_node fs ''AreaMAX'',
             deadzone_x := read_node fs ''DeadzoneX'', deadzone_y := read_node fs ''DeadzoneY'' \<rparr>)"


subsection \<open>keyFunctions (lines 230-258)\<close>

definition toggle_camera :: "state \<Rightarrow> state" where
  \<comment> \<open>The body of \<^verbatim>\<open>if (key == 'c')\<close>; \<^verbatim>\<open>controlWindow\<close> and \<^verbatim>\<open>drawDeadzone\<close> only redraw.\<close>
  "toggle_camera st =
     (let st1 = saveConfigValues st;
          st2 = st1\<lparr>camera := cnot (camera st1)\<rparr>
      in loadConfigValues st2)"

definition keyFunctions :: "bool \<Rightarrow> int \<Rightarrow> state \<Rightarrow> state" where
  \<comment> \<open>The first argument is the answer of \<^verbatim>\<open>ardrone.onGround()\<close>. The key codes are
      pairwise different, so at most one of the source's \<^verbatim>\<open>if\<close> statements fires.\<close>
  "keyFunctions on_ground key st =
     (if key = 32 then st\<lparr>ardrone := ardrone st @ [if on_ground then Takeoff else Landing]\<rparr>
      else if key = 99 then toggle_camera st
      else if key = 119 then st\<lparr>vx := 1\<rparr>
      else if key = 115 then st\<lparr>vx := - 1\<rparr>
      else if key = 97 then st\<lparr>vr := 1\<rparr>
      else if key = 100 then st\<lparr>vr := - 1\<rparr>
      else if key = 113 then st\<lparr>vy := 1\<rparr>
      else if key = 101 then st\<lparr>vy := - 1\<rparr>
      else if key = 105 then st\<lparr>vz := 1\<rparr>
      else if key = 107 then st\<lparr>vz := - 1\<rparr>
      else if key = 118 then st\<lparr>ardrone := ardrone st @ [SetCalibration]\<rparr>
      else if key = 116 then st\<lparr>ardrone := ardrone st @ [SetFlatTrim]\<rparr>
      else if key = 112 then st\<lparr>ardrone := ardrone st @ [Emergency]\<rparr>
      else if key = 102 then st\<lparr>follow := cnot (follow st)\<rparr>
      else if key = 108 then st\<lparr>auto_land := cnot (auto_land st)\<rparr>
      else st)"

subsection \<open>detectObject (lines 260-312)\<close>

text \<open>
  The image operations of OpenCV are not part of the program. The ones whose result is
  an algorithm of its own (thresholding, morphological closing, contour tracing, the
  area of a polygon, the rasterisation of a filled polygon) are parameters of the model.
  A mask is the set of its non-zero pixels. The image \<^verbatim>\<open>result\<close> starts black and only
  ever receives the value 255, so it is the list of its white pixels.
\<close>

type_synonym point = "int \<times> int"
type_synonym contour = "point list"
type_synonym mask = "point set"
type_synonym image = "point list"

record 'img opencv =
  inRange :: "'img \<Rightarrow> int \<times> int \<times> int \<Rightarrow> int \<times> int \<times> int \<Rightarrow> mask"
  morphologyEx_close :: "mask \<Rightarrow> mask"
  findContours :: "mask \<Rightarrow> contour list"
  contourArea :: "contour \<Rightarrow> real"
  fillContour :: "contour \<Rightarrow> point list"

record Moments =
  m00 :: real
  m10 :: real
  m01 :: real

datatype fault = FloatToIntUndefined

fun largest_contour :: "(contour \<Rightarrow> real) \<Rightarrow> contour list \<Rightarrow> int \<Rightarrow> int \<times> real \<Rightarrow> int \<times> real" where
  \<comment> \<open>The loop of lines 283-290 from index \<open>i\<close> on; the pair is
      \<^verbatim>\<open>(largest_contour_id, contour_max_area)\<close>.\<close>
  "largest_contour ca [] i acc = acc"
| "largest_contour ca (c # cs) i (best, mx) =
     largest_contour ca cs (i + 1) (if ca c > mx then (i, ca c) else (best, mx))"

definition in_frame :: "point \<Rightarrow> bool" where
  "in_frame p \<longleftrightarrow> 0 \<le> fst p \<and> fst p < WIDTH \<and> 0 \<le> snd p \<and> snd p < HEIGHT"

definition drawContours :: "'img opencv \<Rightarrow> image \<Rightarrow> contour list \<Rightarrow> int \<Rightarrow> image" where
  \<comment> \<open>Line 295: a negative index draws every contour; drawing is clipped to the image.
      An index beyond the vector is rejected by OpenCV; the loop never yields one.\<close>
  "drawContours cv img contours idx =
     (let chosen = (if idx < 0 then contours
                    else if idx < int (length contours) then [contours ! nat idx]
                    else [])
      in remdups (img @ filter in_frame (concat (map (fillContour cv) chosen))))"

definition moments :: "image \<Rightarrow> Moments" where
  \<comment> \<open>Raw moments of a grey image whose listed pixels hold 255 and all others 0.\<close>
  "moments img =
     \<lparr> m00 = 255 * real (length img),
       m10 = 255 * real_of_int (sum_list (map fst img)),
       m01 = 255 * real_of_int (sum_list (map snd img)) \<rparr>"

definition estimate :: "Moments \<Rightarrow> state \<Rightarrow> fault + (int \<times> state)" where
  \<comment> \<open>Lines 299-311. With \<open>area = 0\<close> inside the branch the quotient is not a number and
      its conversion to \<^verbatim>\<open>int\<close> is undefined.\<close>
  "estimate M st =
     (let st1 = st\<lparr>area := m00 M\<rparr>
      in if area st1 > real_of_int (min_area st1 * 100000)
         then (if area st1 = 0 then Inl FloatToIntUndefined
               else Inr (1, st1\<lparr>pos_x := double_to_int (m10 M / area st1),
                                pos_y := double_to_int (m01 M / area st1)\<rparr>))
         else Inr (0, st1))"

definition closed_mask :: "'img opencv \<Rightarrow> 'img \<Rightarrow> state \<Rightarrow> mask" where
  \<comment> \<open>Lines 269-274: the thresholded frame after the closing.\<close>
  "closed_mask cv img_hsv st =
     morphologyEx_close cv
       (inRange cv img_hsv (hue_low st, sat_low st, val_low st)
                           (hue_high st, sat_high st, val_high st))"

definition largest_contour_id :: "'img opencv \<Rightarrow> contour list \<Rightarrow> int" where
  \<comment> \<open>Lines 278-290.\<close>
  "largest_contour_id cv contours = fst (largest_contour (contourArea cv) contours 0 (- 1, 0))"

definition filled_result :: "'img opencv \<Rightarrow> mask \<Rightarrow> image" where
  \<comment> \<open>Lines 276-295: the image \<^verbatim>\<open>result\<close> after \<^verbatim>\<open>drawContours\<close>.\<close>
  "filled_result cv msk =
     (let contours = findContours cv msk
      in drawContours cv [] contours (largest_contour_id cv contours))"

definition detectObject :: "'img opencv \<Rightarrow> 'img \<Rightarrow> state \<Rightarrow> fault + (int \<times> state)" where
  "detectObject cv img_hsv st =
     estimate (moments (filled_result cv (closed_mask cv img_hsv st))) st"

subsection \<open>The control loop (lines 389-430)\<close>

type_synonym 'img cycle_input = "int \<times> bool \<times> 'img"

definition cycle :: "'img opencv \<Rightarrow> 'img cycle_input \<Rightarrow> state \<Rightarrow> fault + state" where
  \<comment> \<open>One pass of the loop body for a key other than ESC: the key, the answer of
      \<^verbatim>\<open>onGround\<close> and the frame converted to HSV.\<close>
  "cycle cv inp st =
     (case inp of (key, on_ground, img_hsv) \<Rightarrow>
        (case detectObject cv img_hsv (keyFunctions on_ground key st) of
           Inl e \<Rightarrow> Inl e
         | Inr (d, st1) \<Rightarrow>
             (let st2 = st1\<lparr>detected := d\<rparr>
              in Inr (if detected st2 \<noteq> 0
                      then (if follow st2 \<noteq> 0 then followObject st2 else st2)
                      else st2))))"

fun main_loop :: "'img opencv \<Rightarrow> 'img cycle_input list \<Rightarrow> state \<Rightarrow> fault + state" where
  \<comment> \<open>The loop over the cycles observed so far; ESC (27) leaves it and saves.\<close>
  "main_loop cv [] st = Inr st"
| "main_loop cv (inp # rest) st =
     (if fst inp = 27 then Inr (saveConfigValues st)
      else (case cycle cv inp st of Inl e \<Rightarrow> Inl e | Inr st' \<Rightarrow> main_loop cv rest st'))"

definition main :: "'img opencv \<Rightarrow> config_file \<Rightarrow> config_file \<Rightarrow> 'img cycle_input list
    \<Rightarrow> fault + state" where
  \<comment> \<open>Lines 385-430 once the capture device is open: load, then loop.\<close>
  "main cv front bottom inputs =
     main_loop cv inputs (loadConfigValues (initial_state front bottom))"

subsection \<open>Quantities the properties speak about\<close>




subsection \<open>Concrete inputs\<close>

definition demo_cv :: "unit opencv" where
  \<comment> \<open>An image library that finds one square of four pixels in every frame.\<close>
  "demo_cv = \<lparr> inRange = (\<lambda>img lo hi. {(0, 0), (1, 0), (0, 1), (1, 1)}),
               morphologyEx_close = (\<lambda>m. m),
               findContours = (\<lambda>m. if m = {} then [] else [[(0, 0), (1, 0), (1, 1), (0, 1)]]),
               contourArea = (\<lambda>c. 1),
               fillContour = (\<lambda>c. [(0, 0), (1, 0), (0, 1), (1, 1)]) \<rparr>"


definition start_state :: state where
  "start_state = initial_state Map.empty Map.empty"








definition strict_state :: state where
  \<comment> \<open>A minimum area that the four-pixel square of \<open>demo_cv\<close> does not reach.\<close>
  "strict_state = start_state\<lparr>min_area := 1\<rparr>"

definition landing_state :: state where
  \<comment> \<open>Bottom camera, following and auto-land on, area threshold 0.\<close>
  "landing_state = start_state\<lparr>camera := 1, follow := 1, auto_land := 1, max_area := 0\<rparr>"



section \<open>Properties\<close>

subsection \<open>Auxiliary facts\<close>










lemma demo_moments:
  "moments (filled_result demo_cv (closed_mask demo_cv () st)) = \<lparr>m00 = 1020, m10 = 510, m01 = 510\<rparr>"
  by (simp add: demo_cv_def closed_mask_def filled_result_def largest_contour_id_def
      drawContours_def moments_def in_frame_def WIDTH_def HEIGHT_def Let_def)


lemma demo_detectObject:
  "detectObject demo_cv () st =
     (if 1020 > real_of_int (min_area st * 100000)
      then Inr (1, st\<lparr>area := 1020, pos_x := 0, pos_y := 0\<rparr>)
      else Inr (0, st\<lparr>area := 1020\<rparr>))"
  by (simp add: detectObject_def demo_moments estimate_def double_to_int_def Let_def)









lemma keyFunctions_no_key: "keyFunctions g (- 1) st = st"
  by (simp add: keyFunctions_def)


subsection \<open>Each camera mode writes only its own axes\<close>

text \<open>
  C10. The front-camera branch never writes the left/right setpoint \<open>vy\<close>, and the
  bottom-camera branch never writes the yaw-rate setpoint \<open>vr\<close>: across a call of
  \<open>followObject\<close> in that mode the setpoint keeps the value it had before.
\<close>

theorem followObject_mode_frame:
  "(camera st = 0 \<longrightarrow> vy (followObject st) = vy st) \<and>
   (camera st = 1 \<longrightarrow> vr (followObject st) = vr st)"
  by (simp add: followObject_def follow_front_def follow_bottom_def Let_def)

theorem followObject_mode_frame_witness:
  "camera start_state = 0 \<and> vy (followObject start_state) = vy start_state \<and>
   camera landing_state = 1 \<and> vr (followObject landing_state) = vr landing_state"
  using followObject_mode_frame [of start_state] followObject_mode_frame [of landing_state]
  by (simp add: start_state_def landing_state_def initial_state_def)

subsection \<open>Detection threshold\<close>


subsection \<open>A frame without foreground\<close>



subsection \<open>The deadzone check\<close>



subsection \<open>Forward velocity in front-camera mode\<close>



subsection \<open>A cycle without detection\<close>

text \<open>
  C7. In a cycle in which \<open>detectObject\<close> returns 0 the follow controller is not invoked:
  the state at the end of the cycle is the state right after detection. Detection itself
  assigns only \<open>area\<close>, so the four velocity setpoints are those left by the keyboard
  handling of that cycle, and when no velocity key was pressed they are exactly the
  values from before the cycle.
\<close>

theorem not_found_keeps_setpoints:
  assumes "detectObject cv img (keyFunctions on_ground key st) = Inr (0, st1)"
  shows "cycle cv (key, on_ground, img) st = Inr (st1\<lparr>detected := 0\<rparr>) \<and>
         st1 = (keyFunctions on_ground key st)\<lparr>area := area st1\<rparr> \<and>
         (key \<notin> {119, 115, 97, 100, 113, 101, 105, 107} \<longrightarrow>
            (\<exists>st'. cycle cv (key, on_ground, img) st = Inr st' \<and>
               vx st' = vx st \<and> vy st' = vy st \<and> vz st' = vz st \<and> vr st' = vr st))"
proof -
  have c: "cycle cv (key, on_ground, img) st = Inr (st1\<lparr>detected := 0\<rparr>)"
    using assms by (simp add: cycle_def Let_def)
  have s: "st1 = (keyFunctions on_ground key st)\<lparr>area := area st1\<rparr>"
    using assms by (auto simp: detectObject_def estimate_def Let_def split: if_splits)
  have k: "vx (keyFunctions on_ground key st) = vx st \<and> vy (keyFunctions on_ground key st) = vy st \<and>
           vz (keyFunctions on_ground key st) = vz st \<and> vr (keyFunctions on_ground key st) = vr st"
    if "key \<notin> {119, 115, 97, 100, 113, 101, 105, 107}"
    using that
    by (simp add: keyFunctions_def toggle_camera_def loadConfigValues_def saveConfigValues_def
        Let_def)
  have v: "vx st1 = vx (keyFunctions on_ground key st) \<and> vy st1 = vy (keyFunctions on_ground key st) \<and>
           vz st1 = vz (keyFunctions on_ground key st) \<and> vr st1 = vr (keyFunctions on_ground key st)"
    by (subst s, simp)+
  show ?thesis
    using c s k v by simp
qed

theorem not_found_keeps_setpoints_witness:
  "detectObject demo_cv () (keyFunctions False (- 1) strict_state)
     = Inr (0, strict_state\<lparr>area := 1020\<rparr>) \<and>
   cycle demo_cv (- 1, False, ()) strict_state = Inr (strict_state\<lparr>area := 1020, detected := 0\<rparr>) \<and>
   (- 1 :: int) \<notin> {119, 115, 97, 100, 113, 101, 105, 107} \<and>
   (\<exists>st'. cycle demo_cv (- 1, False, ()) strict_state = Inr st' \<and>
      vx st' = vx strict_state \<and> vy st' = vy strict_state \<and>
      vz st' = vz strict_state \<and> vr st' = vr strict_state)"
proof -
  have d: "detectObject demo_cv () (keyFunctions False (- 1) strict_state)
      = Inr (0, strict_state\<lparr>area := 1020\<rparr>)"
    by (simp add: keyFunctions_no_key demo_detectObject strict_state_def start_state_def
        initial_state_def)
  show ?thesis
    using not_found_keeps_setpoints [OF d] d by (simp add: keyFunctions_no_key)
qed

subsection \<open>Toggling the camera twice\<close>



subsection \<open>Yaw rate in front-camera mode\<close>




subsection \<open>Range of the setpoints\<close>




subsection \<open>Land commands under auto-land\<close>








end
